theory Spec2Isabelle
  imports Complex_Main "HOL-Library.Log_Nat"
begin

section \<open>Domain models (src/domain/models.py)\<close>

text \<open>
  Python values are modelled as follows.  A \<open>str\<close> is a \<^typ>\<open>string\<close> whose characters are
  the code points below 256; a \<open>Path\<close> is the string of its text; a \<open>datetime\<close> is an
  abstract tick count (\<^typ>\<open>nat\<close>), and \<open>datetime.now()\<close> is an argument \<open>now\<close> of the
  operation that reads the clock.  \<open>Optional[T]\<close> is \<^typ>\<open>'a option\<close>.  An exception that
  a function raises is the \<open>Inl\<close> branch of its result.
\<close>

datatype error =
  ValueError | KeyError string | TypeError | OverflowError | ZeroDivisionError
| CancelledException

datatype DownloadFormat = VIDEO | AUDIO

datatype DownloadStatus =
  PENDING | CONNECTING | DOWNLOADING | PROCESSING | COMPLETED | CANCELLED | ERROR

text \<open>The \<open>.value\<close> of the two enums.\<close>

fun format_value :: "DownloadFormat \<Rightarrow> string" where
  "format_value VIDEO = ''video''"
| "format_value AUDIO = ''audio''"

fun status_value :: "DownloadStatus \<Rightarrow> string" where
  "status_value PENDING = ''pending''"
| "status_value CONNECTING = ''connecting''"
| "status_value DOWNLOADING = ''downloading''"
| "status_value PROCESSING = ''processing''"
| "status_value COMPLETED = ''completed''"
| "status_value CANCELLED = ''cancelled''"
| "status_value ERROR = ''error''"

text \<open>The dataclass \<open>Download\<close>; its field \<open>id\<close> is called \<open>ident\<close> here.\<close>

record Download =
  url :: string
  output_path :: string
  format :: DownloadFormat
  ident :: string
  status :: DownloadStatus
  progress :: int
  title :: "string option"
  error_message :: "string option"
  started_at :: nat
  completed_at :: "nat option"

text \<open>
  Construction: the generated \<open>__init__\<close> stores the fields and \<open>__post_init__\<close> raises
  \<open>ValueError\<close> unless \<open>0 <= progress <= 100\<close>.  The arguments are the ten fields, in
  the order of the class.
\<close>

definition Download_init ::
  "string \<Rightarrow> string \<Rightarrow> DownloadFormat \<Rightarrow> string \<Rightarrow> DownloadStatus \<Rightarrow> int \<Rightarrow> string option \<Rightarrow>
   string option \<Rightarrow> nat \<Rightarrow> nat option \<Rightarrow> error + Download" where
  "Download_init u p f i s pr t e st c =
     (if \<not> (0 \<le> pr \<and> pr \<le> 100) then Inl ValueError
      else Inr \<lparr>url = u, output_path = p, format = f, ident = i, status = s, progress = pr,
                title = t, error_message = e, started_at = st, completed_at = c\<rparr>)"

text \<open>Truth value of an \<open>Optional[str]\<close> in \<open>if title:\<close>: neither \<open>None\<close> nor empty.\<close>

fun truthy :: "string option \<Rightarrow> bool" where
  "truthy None = False"
| "truthy (Some s) = (s \<noteq> [])"

definition update_progress :: "Download \<Rightarrow> int \<Rightarrow> DownloadStatus \<Rightarrow> string option \<Rightarrow> Download" where
  "update_progress d percent st t =
     (let d1 = d\<lparr>progress := max 0 (min 100 percent)\<rparr>;
          d2 = d1\<lparr>status := st\<rparr>
      in if truthy t then d2\<lparr>title := t\<rparr> else d2)"

definition mark_completed :: "Download \<Rightarrow> nat \<Rightarrow> Download" where
  "mark_completed d now = d\<lparr>status := COMPLETED, progress := 100, completed_at := Some now\<rparr>"

definition mark_error :: "Download \<Rightarrow> string \<Rightarrow> nat \<Rightarrow> Download" where
  "mark_error d message now =
     d\<lparr>status := ERROR, error_message := Some message, completed_at := Some now\<rparr>"

definition mark_cancelled :: "Download \<Rightarrow> nat \<Rightarrow> Download" where
  "mark_cancelled d now = d\<lparr>status := CANCELLED, completed_at := Some now\<rparr>"

definition is_active :: "Download \<Rightarrow> bool" where
  "is_active d = (status d \<in> {PENDING, CONNECTING, DOWNLOADING, PROCESSING})"

definition is_terminal :: "Download \<Rightarrow> bool" where
  "is_terminal d = (status d \<in> {COMPLETED, CANCELLED, ERROR})"

text \<open>The operations of a record, as data, so that sequences of them can be run.\<close>

datatype download_op =
  UpdateProgress int DownloadStatus "string option"
| MarkCompleted nat
| MarkError string nat
| MarkCancelled nat

fun apply_op :: "Download \<Rightarrow> download_op \<Rightarrow> Download" where
  "apply_op d (UpdateProgress p s t) = update_progress d p s t"
| "apply_op d (MarkCompleted now) = mark_completed d now"
| "apply_op d (MarkError m now) = mark_error d m now"
| "apply_op d (MarkCancelled now) = mark_cancelled d now"

fun apply_ops :: "Download \<Rightarrow> download_op list \<Rightarrow> Download" where
  "apply_ops d [] = d"
| "apply_ops d (x # xs) = apply_ops (apply_op d x) xs"

text \<open>The state an operation assigns (each assigns one, whatever the state before).\<close>

fun assigned_status :: "download_op \<Rightarrow> DownloadStatus" where
  "assigned_status (UpdateProgress p s t) = s"
| "assigned_status (MarkCompleted now) = COMPLETED"
| "assigned_status (MarkError m now) = ERROR"
| "assigned_status (MarkCancelled now) = CANCELLED"

text \<open>The dataclass \<open>HistoryEntry\<close>; its fields carry the prefix \<open>h_\<close>.\<close>

record HistoryEntry =
  h_id :: string
  h_title :: string
  h_output_path :: string
  h_status :: string
  h_format :: string
  h_completed_at :: string

text \<open>
  \<open>isoformat\<close> of a timestamp is not part of the repository; it is an argument of
  \<open>from_download\<close>.  In the default title, the code point 237 is the letter i with an acute
  accent.
\<close>

definition default_title :: string where
  "default_title = ''Sin t'' @ [char_of (237::nat)] @ ''tulo''"

definition from_download :: "(nat \<Rightarrow> string) \<Rightarrow> Download \<Rightarrow> HistoryEntry" where
  "from_download isoformat d =
     \<lparr>h_id = ident d,
      h_title = (case title d of
                   None \<Rightarrow> default_title
                 | Some t \<Rightarrow> if t \<noteq> [] then t else default_title),
      h_output_path = output_path d,
      h_status = status_value (status d),
      h_format = format_value (format d),
      h_completed_at = (case completed_at d of Some c \<Rightarrow> isoformat c | None \<Rightarrow> '''')\<rparr>"

text \<open>A \<open>dict\<close> with string keys and string values; \<open>data[k]\<close> raises \<open>KeyError\<close>.\<close>

definition to_dict :: "HistoryEntry \<Rightarrow> (string \<rightharpoonup> string)" where
  "to_dict e =
     [''id'' \<mapsto> h_id e, ''title'' \<mapsto> h_title e, ''output_path'' \<mapsto> h_output_path e,
      ''status'' \<mapsto> h_status e, ''format'' \<mapsto> h_format e, ''completed_at'' \<mapsto> h_completed_at e]"

definition subscript :: "(string \<rightharpoonup> 'v) \<Rightarrow> string \<Rightarrow> error + 'v" where
  "subscript data k = (case data k of None \<Rightarrow> Inl (KeyError k) | Some v \<Rightarrow> Inr v)"

text \<open>Sequencing of calls that may raise: the first exception ends the evaluation.\<close>

definition and_then :: "error + 'a \<Rightarrow> ('a \<Rightarrow> error + 'b) \<Rightarrow> error + 'b" where
  "and_then r k = (case r of Inl x \<Rightarrow> Inl x | Inr v \<Rightarrow> k v)"

definition from_dict :: "(string \<rightharpoonup> string) \<Rightarrow> error + HistoryEntry" where
  "from_dict data =
     and_then (subscript data ''id'') (\<lambda>i.
     and_then (subscript data ''title'') (\<lambda>t.
     and_then (subscript data ''output_path'') (\<lambda>p.
     and_then (subscript data ''status'') (\<lambda>s.
     and_then (subscript data ''format'') (\<lambda>f.
     and_then (subscript data ''completed_at'') (\<lambda>c.
       Inr \<lparr>h_id = i, h_title = t, h_output_path = p, h_status = s, h_format = f,
            h_completed_at = c\<rparr>))))))"

section \<open>URL validation (src/domain/validators.py)\<close>

record ValidationResult =
  is_valid :: bool
  v_error_message :: string
  error_code :: string

text \<open>
  \<open>str.strip()\<close> removes leading and trailing whitespace.  Among the code points below
  256, \<open>str.isspace\<close> holds of 9 to 13, 28 to 32, 133 and 160.
\<close>

definition isspace :: "char \<Rightarrow> bool" where
  "isspace c = (let n = (of_char c :: nat) in (9 \<le> n \<and> n \<le> 13) \<or> (28 \<le> n \<and> n \<le> 32) \<or> n = 133 \<or> n = 160)"

definition strip :: "string \<Rightarrow> string" where
  "strip s = rev (dropWhile isspace (rev (dropWhile isspace s)))"

text \<open>
  The site-support registry is the \<open>yt_dlp\<close> package, which is not part of the repository.
  What \<open>_is_site_supported\<close> can observe of it: the import fails; \<open>gen_extractors()\<close>
  raises; or it yields extractors, each without a \<open>suitable\<close> attribute (\<open>None\<close>) or
  with one that returns a truth value or raises.
\<close>

type_synonym extractor = "(string \<Rightarrow> error + bool) option"

datatype registry = ImportFails | GenExtractorsRaises | Extractors "extractor list"

fun any_suitable :: "extractor list \<Rightarrow> string \<Rightarrow> bool" where
  "any_suitable [] u = False"
| "any_suitable (None # es) u = any_suitable es u"
| "any_suitable (Some suitable # es) u =
     (case suitable u of
        Inl x \<Rightarrow> True
      | Inr b \<Rightarrow> if b then True else any_suitable es u)"

fun is_site_supported :: "registry \<Rightarrow> string \<Rightarrow> bool" where
  "is_site_supported ImportFails u = True"
| "is_site_supported GenExtractorsRaises u = True"
| "is_site_supported (Extractors es) u = any_suitable es u"

definition ALLOWED_SCHEMES :: "string list" where
  "ALLOWED_SCHEMES = [''http'', ''https'']"

text \<open>The message of a format rejection; a acute is code point 225.\<close>

definition invalid_format :: ValidationResult where
  "invalid_format =
     \<lparr>is_valid = False,
      v_error_message = ''La URL ingresada no es v'' @ [char_of (225::nat)] @ ''lida. '' @
                        ''Por favor verifica e intenta de nuevo.'',
      error_code = ''INVALID_FORMAT''\<rparr>"

text \<open>
  \<open>urllib.parse.urlparse\<close> belongs to the Python standard library, not to the repository:
  it is the argument \<open>urlparse\<close>, which returns the \<open>scheme\<close> and the \<open>netloc\<close> of the
  parse, or raises.
\<close>

definition validate ::
  "(string \<Rightarrow> error + string \<times> string) \<Rightarrow> registry \<Rightarrow> string \<Rightarrow> ValidationResult" where
  "validate urlparse reg url0 =
     (if url0 = [] \<or> strip url0 = [] then
        \<lparr>is_valid = False, v_error_message = ''Por favor ingresa una URL.'',
         error_code = ''EMPTY_URL''\<rparr>
      else
        let u = strip url0 in
        case urlparse u of
          Inl x \<Rightarrow> invalid_format
        | Inr (scheme, netloc) \<Rightarrow>
            if scheme \<notin> set ALLOWED_SCHEMES then invalid_format
            else if netloc = [] then invalid_format
            else if \<not> is_site_supported reg u then
              \<lparr>is_valid = False,
               v_error_message = ''Este sitio no est'' @ [char_of (225::nat)] @ '' soportado actualmente.'',
               error_code = ''UNSUPPORTED_SITE''\<rparr>
            else \<lparr>is_valid = True, v_error_message = [], error_code = []\<rparr>)"

text \<open>
  A stand-in for the standard library on plain URLs, used to run \<open>validate\<close> on examples:
  the scheme is the text before the first colon when that text starts with an ASCII letter
  and holds only letters, digits, \<open>+\<close>, \<open>-\<close> and \<open>.\<close> (lower-cased); the netloc is what
  follows a leading \<open>//\<close> up to the first \<open>/\<close>, \<open>?\<close> or \<open>#\<close>; unbalanced square
  brackets in the netloc raise \<open>ValueError\<close>.
\<close>

definition is_alpha :: "char \<Rightarrow> bool" where
  "is_alpha c = (let n = (of_char c :: nat) in (65 \<le> n \<and> n \<le> 90) \<or> (97 \<le> n \<and> n \<le> 122))"

definition is_scheme_char :: "char \<Rightarrow> bool" where
  "is_scheme_char c =
     (let n = (of_char c :: nat) in is_alpha c \<or> (48 \<le> n \<and> n \<le> 57) \<or> n = 43 \<or> n = 45 \<or> n = 46)"

definition lower :: "char \<Rightarrow> char" where
  "lower c = (let n = (of_char c :: nat) in if 65 \<le> n \<and> n \<le> 90 then char_of (n + 32) else c)"

definition urlparse_plain :: "string \<Rightarrow> error + string \<times> string" where
  "urlparse_plain u =
     (let pre = takeWhile (\<lambda>c. c \<noteq> CHR '':'') u;
          has_scheme = (length pre < length u \<and> pre \<noteq> [] \<and> is_alpha (hd pre) \<and>
                        list_all is_scheme_char pre);
          scheme = (if has_scheme then map lower pre else []);
          rest = (if has_scheme then drop (length pre + 1) u else u);
          netloc = (if take 2 rest = ''//''
                    then takeWhile (\<lambda>c. c \<noteq> CHR ''/'' \<and> c \<noteq> CHR ''?'' \<and> c \<noteq> CHR ''#'') (drop 2 rest)
                    else [])
      in if (CHR ''['' \<in> set netloc) \<noteq> (CHR '']'' \<in> set netloc) then Inl ValueError
         else Inr (scheme, netloc))"


section \<open>Coordinator (src/domain/download_service.py)\<close>

text \<open>
  The callbacks \<open>on_progress\<close>, \<open>on_complete\<close>, \<open>on_error\<close> and the history store's
  \<open>add\<close> belong to the caller; the model records each call, with its arguments, in the
  order in which it is made.  The three callbacks are taken to return normally.
\<close>

datatype sink_call =
  OnProgress int DownloadStatus "string option"
| OnComplete Download
| OnError string
| HistoryAdd HistoryEntry

text \<open>
  An exception that \<open>except Exception as e\<close> catches: \<open>str(e)\<close> and, when the exception has
  the attribute, its \<open>user_message\<close>.
\<close>

datatype raised = Raised string "string option"

text \<open>
  What a call of the history store's \<open>add\<close> does: it returns, or it raises
  \<open>CancelledException\<close>, or it raises another \<open>Exception\<close>.  The two kinds of exception
  are told apart because the worker has a handler for each.
\<close>

datatype add_result = AddReturns | AddRaisesCancelled | AddRaises raised

text \<open>
  One call of \<open>downloader.download\<close>, seen from the coordinator: the dicts it passes to
  \<open>on_progress\<close>, in order, and then how it ends.  In a dict, \<open>None\<close> stands for an absent
  key (\<open>.get\<close> then gives the default).
\<close>

record progress_info =
  pi_percent :: "int option"
  pi_title :: "string option"
  pi_status :: "string option"

datatype engine_outcome =
  Returns string
| RaisesCancelled
| RaisesOther raised

record engine_run =
  reports :: "progress_info list"
  outcome :: engine_outcome

text \<open>
  The coordinator's own state.  \<open>download_thread\<close> holds the id of the job whose thread was
  started last; \<open>cancel_calls\<close> counts the calls of \<open>downloader.cancel()\<close>.
\<close>

record DownloadService =
  current_download :: "Download option"
  download_thread :: "string option"
  cancel_calls :: nat

record start_result =
  returned :: "Download option"
  service_after :: DownloadService
  sink_calls :: "sink_call list"
  thread_started :: "Download option"

definition already_running :: string where
  "already_running = ''Ya hay una descarga en progreso. Cancela la actual para iniciar otra.''"

definition no_permission :: string where
  "no_permission = ''No tienes permiso para guardar archivos en esta carpeta. '' @
                   ''Por favor selecciona otra carpeta.''"

text \<open>\<open>Download(url=..., output_path=..., format=...)\<close> with the defaults of the dataclass.\<close>

definition new_Download :: "string \<Rightarrow> string \<Rightarrow> DownloadFormat \<Rightarrow> string \<Rightarrow> nat \<Rightarrow> Download" where
  "new_Download u p f fresh_id now =
     \<lparr>url = u, output_path = p, format = f, ident = fresh_id, status = PENDING, progress = 0,
      title = None, error_message = None, started_at = now, completed_at = None\<rparr>"

text \<open>
  \<open>output_folder / "downloading"\<close> on the text of a POSIX path: the current directory
  \<open>.\<close> contributes nothing, and a folder that ends with a slash (a root) takes no
  second one.
\<close>

definition placeholder_path :: "string \<Rightarrow> string" where
  "placeholder_path folder =
     (if folder = ''.'' then ''downloading''
      else if folder \<noteq> [] \<and> last folder = CHR ''/'' then folder @ ''downloading''
      else folder @ ''/downloading'')"

text \<open>
  \<open>start_download\<close>.  The validator and the file system are injected collaborators: their
  \<open>validate\<close> and \<open>can_write\<close> are arguments, as are the fresh uuid and the clock.
\<close>

definition start_download ::
  "(string \<Rightarrow> ValidationResult) \<Rightarrow> (string \<Rightarrow> bool) \<Rightarrow> DownloadService \<Rightarrow>
   string \<Rightarrow> string \<Rightarrow> DownloadFormat \<Rightarrow> string \<Rightarrow> nat \<Rightarrow> start_result" where
  "start_download validator_validate can_write svc u output_folder f fresh_id now =
     (if (case current_download svc of None \<Rightarrow> False | Some cur \<Rightarrow> is_active cur) then
        \<lparr>returned = None, service_after = svc, sink_calls = [OnError already_running],
         thread_started = None\<rparr>
      else
        let validation = validator_validate u in
        if \<not> is_valid validation then
          \<lparr>returned = None, service_after = svc,
           sink_calls = [OnError (v_error_message validation)], thread_started = None\<rparr>
        else if \<not> can_write output_folder then
          \<lparr>returned = None, service_after = svc, sink_calls = [OnError no_permission],
           thread_started = None\<rparr>
        else
          let download = new_Download u (placeholder_path output_folder) f fresh_id now in
          \<lparr>returned = Some download,
           service_after = svc\<lparr>current_download := Some download,
                               download_thread := Some (ident download)\<rparr>,
           sink_calls = [], thread_started = Some download\<rparr>)"

text \<open>The closure \<open>handle_progress\<close> of \<open>_execute_download\<close>.\<close>

definition handle_progress :: "Download \<Rightarrow> progress_info \<Rightarrow> Download \<times> sink_call" where
  "handle_progress d info =
     (let percent = (case pi_percent info of None \<Rightarrow> 0 | Some p \<Rightarrow> p);
          t = pi_title info;
          st = (if pi_status info = Some ''processing'' then PROCESSING else DOWNLOADING)
      in (update_progress d percent st t, OnProgress percent st t))"

fun run_reports :: "Download \<Rightarrow> progress_info list \<Rightarrow> Download \<times> sink_call list" where
  "run_reports d [] = (d, [])"
| "run_reports d (r # rs) =
     (case handle_progress d r of (d1, c) \<Rightarrow>
      case run_reports d1 rs of (d2, cs) \<Rightarrow> (d2, c # cs))"

text \<open>The handler \<open>except Exception as e\<close>.\<close>

fun on_exception :: "Download \<Rightarrow> raised \<Rightarrow> nat \<Rightarrow> Download \<times> sink_call list" where
  "on_exception d (Raised str_e user_message) now =
     (let error_message = (case user_message of None \<Rightarrow> str_e | Some m \<Rightarrow> m)
      in (mark_error d error_message now, [OnError error_message]))"

text \<open>
  \<open>_execute_download\<close>: the body of the worker thread.  \<open>history_store\<close> is \<open>None\<close> when
  no store is configured; otherwise it is what \<open>add\<close> does with an entry.  An exception
  of \<open>add\<close> leaves the \<open>try\<close> block like one of the engine: \<open>CancelledException\<close> goes to
  the first handler, every other \<open>Exception\<close> to the second.  \<open>now\<close> is the clock at the
  first terminal mark, \<open>later\<close> the clock when a handler runs after it.  The \<open>finally\<close>
  block changes nothing.
\<close>

definition execute_download ::
  "(HistoryEntry \<Rightarrow> add_result) option \<Rightarrow> (nat \<Rightarrow> string) \<Rightarrow> Download \<Rightarrow> engine_run \<Rightarrow>
   nat \<Rightarrow> nat \<Rightarrow> Download \<times> sink_call list" where
  "execute_download history_store isoformat download run now later =
     (let d0 = update_progress download 0 CONNECTING None;
          c0 = OnProgress 0 CONNECTING None
      in case run_reports d0 (reports run) of (d1, cs) \<Rightarrow>
         (case outcome run of
            Returns path \<Rightarrow>
              (let d2 = mark_completed (d1\<lparr>output_path := path\<rparr>) now in
               case history_store of
                 None \<Rightarrow> (d2, c0 # cs @ [OnComplete d2])
               | Some add \<Rightarrow>
                   (let entry = from_download isoformat d2 in
                    case add entry of
                      AddReturns \<Rightarrow> (d2, c0 # cs @ [HistoryAdd entry, OnComplete d2])
                    | AddRaisesCancelled \<Rightarrow>
                        (let d3 = mark_cancelled d2 later
                         in (d3, c0 # cs @ [HistoryAdd entry, OnComplete d3]))
                    | AddRaises e \<Rightarrow>
                        (case on_exception d2 e later of
                           (d3, es) \<Rightarrow> (d3, c0 # cs @ [HistoryAdd entry] @ es))))
          | RaisesCancelled \<Rightarrow>
              (let d2 = mark_cancelled d1 now in (d2, c0 # cs @ [OnComplete d2]))
          | RaisesOther e \<Rightarrow>
              (case on_exception d1 e now of (d2, es) \<Rightarrow> (d2, c0 # cs @ es))))"

text \<open>
  The entry that the worker hands to \<open>add\<close> when the engine returns \<open>path\<close>:
  \<open>HistoryEntry.from_download\<close> of the record after the reports, the final path and
  \<open>mark_completed\<close>.
\<close>

definition submitted_entry ::
  "(nat \<Rightarrow> string) \<Rightarrow> Download \<Rightarrow> engine_run \<Rightarrow> string \<Rightarrow> nat \<Rightarrow> HistoryEntry" where
  "submitted_entry isoformat download run path now =
     (case run_reports (update_progress download 0 CONNECTING None) (reports run) of
        (d1, cs) \<Rightarrow> from_download isoformat (mark_completed (d1\<lparr>output_path := path\<rparr>) now))"

text \<open>\<open>cancel_download\<close>: the result and the coordinator's state after the call.\<close>

definition cancel_download :: "DownloadService \<Rightarrow> string \<Rightarrow> bool \<times> DownloadService" where
  "cancel_download svc download_id =
     (case current_download svc of
        None \<Rightarrow> (False, svc)
      | Some cur \<Rightarrow>
          if ident cur \<noteq> download_id then (False, svc)
          else if \<not> is_active cur then (False, svc)
          else (True, svc\<lparr>cancel_calls := cancel_calls svc + 1\<rparr>))"

definition get_current_download :: "DownloadService \<Rightarrow> Download option" where
  "get_current_download svc = current_download svc"

text \<open>How often each terminal callback occurs among recorded calls.\<close>

fun is_complete_call :: "sink_call \<Rightarrow> bool" where
  "is_complete_call (OnComplete d) = True"
| "is_complete_call c = False"

fun is_error_call :: "sink_call \<Rightarrow> bool" where
  "is_error_call (OnError m) = True"
| "is_error_call c = False"

definition completions :: "sink_call list \<Rightarrow> sink_call list" where
  "completions cs = filter is_complete_call cs"

definition errors :: "sink_call list \<Rightarrow> sink_call list" where
  "errors cs = filter is_error_call cs"

section \<open>Engine adapter: the progress hook (src/infra/ytdlp_adapter.py)\<close>













section \<open>Example values\<close>

text \<open>Concrete jobs, engine runs and collaborators on which the operations are run below.\<close>

definition example_download :: Download where
  "example_download = new_Download ''https://x/y'' (placeholder_path ''/out'') VIDEO ''job-1'' 0"

definition example_report :: progress_info where
  "example_report = \<lparr>pi_percent = Some 40, pi_title = Some ''clip'', pi_status = Some ''downloading''\<rparr>"

definition returning_run :: engine_run where
  "returning_run = \<lparr>reports = [example_report], outcome = Returns ''/out/clip.mp4''\<rparr>"

definition cancelled_run :: engine_run where
  "cancelled_run = \<lparr>reports = [example_report], outcome = RaisesCancelled\<rparr>"

definition failing_add :: "HistoryEntry \<Rightarrow> add_result" where
  "failing_add entry = AddRaises (Raised ''disk full'' None)"

definition working_add :: "HistoryEntry \<Rightarrow> add_result" where
  "working_add entry = AddReturns"

definition cancelling_add :: "HistoryEntry \<Rightarrow> add_result" where
  "cancelling_add entry = AddRaisesCancelled"

definition tally_isoformat :: "nat \<Rightarrow> string" where
  "tally_isoformat n = replicate n (CHR ''I'')"

definition busy_service :: DownloadService where
  "busy_service =
     \<lparr>current_download = Some (update_progress example_download 40 DOWNLOADING None),
      download_thread = Some ''job-1'', cancel_calls = 0\<rparr>"

definition idle_service :: DownloadService where
  "idle_service = \<lparr>current_download = None, download_thread = None, cancel_calls = 0\<rparr>"

definition finished_service :: DownloadService where
  "finished_service =
     \<lparr>current_download = Some (mark_completed example_download 7),
      download_thread = Some ''job-1'', cancel_calls = 0\<rparr>"

definition plain_validate :: "string \<Rightarrow> ValidationResult" where
  "plain_validate = validate urlparse_plain ImportFails"



definition any_folder :: "string \<Rightarrow> bool" where
  "any_folder folder = True"






section \<open>Properties of the job record\<close>

lemma active_iff_not_terminal: "is_active d \<longleftrightarrow> \<not> is_terminal d"
  by (cases "status d") (simp_all add: is_active_def is_terminal_def)

lemma status_apply_op: "status (apply_op d x) = assigned_status x"
  by (cases x)
    (simp_all add: update_progress_def mark_completed_def mark_error_def mark_cancelled_def Let_def)

lemma status_apply_ops:
  "status (apply_ops d ops) = (if ops = [] then status d else assigned_status (last ops))"
  by (induction ops arbitrary: d) (simp_all add: status_apply_op)

text \<open>
  Claim C1, as the code has it.  \<open>update_progress\<close> clamps every integer percent into
  \<open>[0,100]\<close>: 150 gives 100 and -50 gives 0.  Construction does not clamp: it raises
  \<open>ValueError\<close> exactly when the progress is outside \<open>[0,100]\<close>, and otherwise stores the
  progress as given; so the progress of every constructed record is in \<open>[0,100]\<close> as well.
\<close>

theorem progress_clamped_by_update_checked_by_construction:
  "(Download_init u p f i s pr t e st c = Inl ValueError \<longleftrightarrow> pr < 0 \<or> 100 < pr)
   \<and> (Download_init u p f i s pr t e st c = Inr d \<longrightarrow>
        progress d = pr \<and> 0 \<le> progress d \<and> progress d \<le> 100)
   \<and> progress (update_progress d0 percent s' t') = max 0 (min 100 percent)
   \<and> 0 \<le> progress (update_progress d0 percent s' t')
   \<and> progress (update_progress d0 percent s' t') \<le> 100
   \<and> progress (update_progress d0 150 s' t') = 100
   \<and> progress (update_progress d0 (- 50) s' t') = 0"
  by (auto simp: Download_init_def update_progress_def Let_def)

theorem progress_clamped_by_update_checked_by_construction_witness:
  "Download_init ''https://example.com'' ''video.mp4'' VIDEO ''job-1'' PENDING 100 None None 0 None
     = Inr (new_Download ''https://example.com'' ''video.mp4'' VIDEO ''job-1'' 0\<lparr>progress := 100\<rparr>)
   \<and> progress (new_Download ''https://example.com'' ''video.mp4'' VIDEO ''job-1'' 0\<lparr>progress := 100\<rparr>) = 100
   \<and> progress (update_progress example_download 150 DOWNLOADING None) = 100
   \<and> progress (update_progress example_download (- 50) DOWNLOADING None) = 0"
  using progress_clamped_by_update_checked_by_construction
    [of "''https://example.com''" "''video.mp4''" VIDEO "''job-1''" PENDING 100 None None 0 None
        "new_Download ''https://example.com'' ''video.mp4'' VIDEO ''job-1'' 0\<lparr>progress := 100\<rparr>"
        example_download 150 DOWNLOADING None]
  by (simp add: Download_init_def new_Download_def)

text \<open>
  Claim C1 as stated fails at construction: a record built with progress 150 is not a
  record with progress 100, the constructor raises \<open>ValueError\<close>.
\<close>

theorem construction_with_150_raises:
  "Download_init ''https://example.com'' ''video.mp4'' VIDEO ''job-1'' PENDING 150 None None 0 None
     = Inl ValueError"
  by (simp add: Download_init_def)

text \<open>
  Claim C3, as the code has it.  No operation of the record looks at the state before it
  assigns one: after a sequence of operations the state is the one that the last
  operation assigns (\<open>update_progress\<close> the state it is given, the three marks their own).
  So a state, terminal or not, is kept by the operations that assign that same state;
  the three marks always leave the record terminal, and terminal is the opposite of
  active.
\<close>

theorem state_is_assigned_by_last_operation:
  "status (apply_ops d ops) = (if ops = [] then status d else assigned_status (last ops))
   \<and> (list_all (\<lambda>x. assigned_status x = status d) ops \<longrightarrow> status (apply_ops d ops) = status d)
   \<and> is_terminal (mark_completed d now) \<and> is_terminal (mark_cancelled d now)
   \<and> is_terminal (mark_error d m now)
   \<and> (is_terminal d \<longleftrightarrow> \<not> is_active d)"
proof -
  have "status (apply_ops d ops) = status d"
    if "list_all (\<lambda>x. assigned_status x = status d) ops"
  proof (cases "ops = []")
    case True
    then show ?thesis by simp
  next
    case False
    then have "last ops \<in> set ops" by simp
    with that have "assigned_status (last ops) = status d" by (simp add: list_all_iff)
    with False show ?thesis by (simp add: status_apply_ops)
  qed
  then show ?thesis
    by (simp add: status_apply_ops active_iff_not_terminal is_terminal_def mark_completed_def
        mark_cancelled_def mark_error_def)
qed

theorem state_is_assigned_by_last_operation_witness:
  "list_all (\<lambda>x. assigned_status x = status (mark_cancelled example_download 1))
     [MarkCancelled 2, UpdateProgress 70 CANCELLED None]
   \<and> status (apply_ops (mark_cancelled example_download 1)
        [MarkCancelled 2, UpdateProgress 70 CANCELLED None]) = CANCELLED"
  using state_is_assigned_by_last_operation
    [of "mark_cancelled example_download 1" "[MarkCancelled 2, UpdateProgress 70 CANCELLED None]"]
  by (simp add: mark_cancelled_def)

text \<open>
  Claim C3 as stated fails: a completed record leaves \<open>COMPLETED\<close> under a later
  \<open>update_progress\<close> (to \<open>DOWNLOADING\<close>) and under a later \<open>mark_error\<close> (to \<open>ERROR\<close>).
\<close>

theorem terminal_state_left_by_later_operation:
  "is_terminal (apply_ops example_download [MarkCompleted 1])
   \<and> status (apply_ops example_download [MarkCompleted 1]) = COMPLETED
   \<and> status (apply_ops example_download [MarkCompleted 1, UpdateProgress 50 DOWNLOADING None])
       = DOWNLOADING
   \<and> status (apply_ops example_download [MarkCompleted 1, MarkError ''late'' 2]) = ERROR"
  by (simp add: is_terminal_def mark_completed_def mark_error_def update_progress_def Let_def)

text \<open>
  Claim C9.  Reading back the dict that \<open>to_dict\<close> writes gives the same entry, field for
  field, and raises nothing.
\<close>

theorem history_entry_roundtrip: "from_dict (to_dict e) = Inr e"
  by (simp add: from_dict_def to_dict_def subscript_def and_then_def)

text \<open>
  Claim C10.  \<open>update_progress\<close> writes the progress, the state and, when the title it is
  given is a non-empty string, the title; with \<open>None\<close> or the empty string the title
  stays; the other seven fields stay in every call.
\<close>

theorem update_progress_frame:
  "update_progress d p s t =
     d\<lparr>progress := max 0 (min 100 p), status := s, title := (if truthy t then t else title d)\<rparr>
   \<and> title (update_progress d p s None) = title d
   \<and> title (update_progress d p s (Some [])) = title d
   \<and> (n \<noteq> [] \<longrightarrow> title (update_progress d p s (Some n)) = Some n)
   \<and> ident (update_progress d p s t) = ident d
   \<and> url (update_progress d p s t) = url d
   \<and> output_path (update_progress d p s t) = output_path d
   \<and> format (update_progress d p s t) = format d
   \<and> error_message (update_progress d p s t) = error_message d
   \<and> started_at (update_progress d p s t) = started_at d
   \<and> completed_at (update_progress d p s t) = completed_at d"
  by (simp add: update_progress_def Let_def)

theorem update_progress_frame_witness:
  "''clip'' \<noteq> [] \<and> title (update_progress example_download 40 DOWNLOADING (Some ''clip'')) = Some ''clip''
   \<and> title (update_progress (update_progress example_download 40 DOWNLOADING (Some ''clip''))
        60 DOWNLOADING (Some [])) = Some ''clip''"
  using update_progress_frame [of example_download 40 DOWNLOADING "Some ''clip''" "''clip''"]
    update_progress_frame
      [of "update_progress example_download 40 DOWNLOADING (Some ''clip'')" 60 DOWNLOADING "Some []"]
  by simp

section \<open>Properties of the validator\<close>






section \<open>Properties of the coordinator\<close>

lemma run_reports_calls:
  "run_reports d rs = (d', cs) \<Longrightarrow> completions cs = [] \<and> errors cs = []"
proof (induction rs arbitrary: d d' cs)
  case Nil
  then show ?case by (simp add: completions_def errors_def)
next
  case (Cons r rs)
  obtain d1 c where h: "handle_progress d r = (d1, c)" by (cases "handle_progress d r")
  obtain d2 cs2 where r: "run_reports d1 rs = (d2, cs2)" by (cases "run_reports d1 rs")
  from h have c: "\<not> is_complete_call c \<and> \<not> is_error_call c"
    by (auto simp: handle_progress_def Let_def)
  from Cons.prems h r have "cs = c # cs2" by simp
  with Cons.IH[OF r] c show ?case by (simp add: completions_def errors_def)
qed

text \<open>
  Claim C4.  While the current job is not terminal, \<open>start_download\<close> returns no job,
  calls \<open>on_error\<close> once (and no other callback) with the Spanish message that a download
  is already running, starts no thread and leaves the coordinator, with the current job's
  record, as it was; this holds whatever the validator and the file system would answer.
\<close>

theorem start_rejected_while_job_active:
  assumes "current_download svc = Some cur" and "\<not> is_terminal cur"
  shows "start_download validator_validate can_write svc u folder f fresh_id now =
           \<lparr>returned = None, service_after = svc, sink_calls = [OnError already_running],
            thread_started = None\<rparr>"
  using assms by (simp add: start_download_def active_iff_not_terminal)

theorem start_rejected_while_job_active_witness:
  "current_download busy_service = Some (update_progress example_download 40 DOWNLOADING None)
   \<and> \<not> is_terminal (update_progress example_download 40 DOWNLOADING None)
   \<and> start_download plain_validate any_folder busy_service ''https://x/z'' ''/out'' AUDIO ''job-2'' 9
       = \<lparr>returned = None, service_after = busy_service,
          sink_calls = [OnError already_running], thread_started = None\<rparr>"
proof -
  have c: "current_download busy_service = Some (update_progress example_download 40 DOWNLOADING None)"
    by (simp add: busy_service_def)
  have t: "\<not> is_terminal (update_progress example_download 40 DOWNLOADING None)"
    by (simp add: is_terminal_def update_progress_def Let_def)
  show ?thesis
    using c t start_rejected_while_job_active [OF c t, of plain_validate any_folder
        "''https://x/z''" "''/out''" AUDIO "''job-2''" 9]
    by simp
qed

text \<open>
  Claim C5.  \<open>cancel_download\<close> returns \<open>False\<close> exactly when there is no current job, or
  the id is not the current job's, or the current job is terminal, and then changes
  nothing.  In every other case it returns \<open>True\<close> after one call of the downloader's
  \<open>cancel\<close>; the current job's record is as before (in particular still not
  \<open>CANCELLED\<close>).
\<close>

theorem cancel_download_result:
  "(fst (cancel_download svc i) = False \<longleftrightarrow>
      current_download svc = None \<or>
      (\<exists>cur. current_download svc = Some cur \<and> (ident cur \<noteq> i \<or> is_terminal cur)))
   \<and> (\<not> fst (cancel_download svc i) \<longrightarrow> snd (cancel_download svc i) = svc)
   \<and> (fst (cancel_download svc i) \<longrightarrow>
        snd (cancel_download svc i) = svc\<lparr>cancel_calls := cancel_calls svc + 1\<rparr>
        \<and> current_download (snd (cancel_download svc i)) = current_download svc)"
  by (auto simp: cancel_download_def active_iff_not_terminal split: option.splits)

theorem cancel_download_result_witness:
  "cancel_download busy_service ''job-1'' = (True, busy_service\<lparr>cancel_calls := 1\<rparr>)
   \<and> current_download (snd (cancel_download busy_service ''job-1''))
       = Some (update_progress example_download 40 DOWNLOADING None)
   \<and> cancel_download busy_service ''job-2'' = (False, busy_service)
   \<and> cancel_download idle_service ''job-1'' = (False, idle_service)
   \<and> cancel_download finished_service ''job-1'' = (False, finished_service)"
proof -
  have a: "fst (cancel_download busy_service ''job-1'')"
    by (simp add: cancel_download_def busy_service_def example_download_def new_Download_def
        update_progress_def is_active_def Let_def)
  have b: "\<not> fst (cancel_download busy_service ''job-2'')"
    by (simp add: cancel_download_def busy_service_def example_download_def new_Download_def
        update_progress_def Let_def)
  have c: "\<not> fst (cancel_download idle_service ''job-1'')"
    by (simp add: cancel_download_def idle_service_def)
  have d: "\<not> fst (cancel_download finished_service ''job-1'')"
    by (simp add: cancel_download_def finished_service_def mark_completed_def is_active_def)
  have k: "cancel_calls busy_service = 0"
    "current_download busy_service = Some (update_progress example_download 40 DOWNLOADING None)"
    by (simp_all add: busy_service_def)
  show ?thesis
    using a b c d k
      cancel_download_result [of busy_service "''job-1''"]
      cancel_download_result [of busy_service "''job-2''"]
      cancel_download_result [of idle_service "''job-1''"]
      cancel_download_result [of finished_service "''job-1''"]
    by (simp add: prod_eq_iff)
qed

text \<open>
  Claim C6.  When the engine call ends with a cancellation, whatever it reported before,
  the worker marks the record \<open>CANCELLED\<close> with \<open>completed_at\<close> set to the clock, calls
  \<open>on_complete\<close> exactly once, with that record and as its last call, and never calls
  \<open>on_error\<close>.
\<close>

theorem cancellation_routed_to_completion:
  assumes "outcome run = RaisesCancelled"
  shows "status (fst (execute_download hs isoformat d run now later)) = CANCELLED
     \<and> completed_at (fst (execute_download hs isoformat d run now later)) = Some now
     \<and> completions (snd (execute_download hs isoformat d run now later)) =
         [OnComplete (fst (execute_download hs isoformat d run now later))]
     \<and> last (snd (execute_download hs isoformat d run now later)) =
         OnComplete (fst (execute_download hs isoformat d run now later))
     \<and> errors (snd (execute_download hs isoformat d run now later)) = []"
proof -
  obtain d1 cs where r: "run_reports (update_progress d 0 CONNECTING None) (reports run) = (d1, cs)"
    by (cases "run_reports (update_progress d 0 CONNECTING None) (reports run)")
  note rc = run_reports_calls[OF r]
  show ?thesis using assms r rc
    by (simp add: execute_download_def Let_def mark_cancelled_def completions_def errors_def)
qed

theorem cancellation_routed_to_completion_witness:
  "outcome cancelled_run = RaisesCancelled
   \<and> status (fst (execute_download (Some working_add) tally_isoformat example_download
        cancelled_run 5 6)) = CANCELLED
   \<and> completed_at (fst (execute_download (Some working_add) tally_isoformat example_download
        cancelled_run 5 6)) = Some 5
   \<and> errors (snd (execute_download (Some working_add) tally_isoformat example_download
        cancelled_run 5 6)) = []"
proof -
  have o: "outcome cancelled_run = RaisesCancelled" by (simp add: cancelled_run_def)
  show ?thesis
    using o cancellation_routed_to_completion
      [OF o, of "Some working_add" tally_isoformat example_download 5 6]
    by simp
qed

text \<open>
  Claim C2, as the code has it.  The call of the history store's \<open>add\<close> stands inside the
  worker's \<open>try\<close> block, after \<open>mark_completed\<close> and before \<open>on_complete\<close>; the worker
  always makes it, with the entry \<open>submitted_entry\<close>.  When the engine call returns and
  \<open>add\<close> returns on that entry, the job ends \<open>COMPLETED\<close>, \<open>on_complete\<close> is called
  exactly once and \<open>on_error\<close> never.  An exception of \<open>add\<close> is not swallowed, it takes
  the handler of its class.  A \<open>CancelledException\<close> moves the record on from
  \<open>COMPLETED\<close> to \<open>CANCELLED\<close>, with \<open>on_complete\<close> called exactly once and \<open>on_error\<close>
  never.  Every other \<open>Exception\<close> moves the record on from \<open>COMPLETED\<close> to \<open>ERROR\<close>,
  \<open>on_error\<close> is called exactly once with the exception's message and \<open>on_complete\<close> is
  never called.
\<close>

theorem history_failure_reaches_error_handler:
  assumes "outcome run = Returns path"
  shows "HistoryAdd (submitted_entry isoformat d run path now)
           \<in> set (snd (execute_download (Some add) isoformat d run now later))
       \<and> (add (submitted_entry isoformat d run path now) = AddReturns \<longrightarrow>
            status (fst (execute_download (Some add) isoformat d run now later)) = COMPLETED
          \<and> completions (snd (execute_download (Some add) isoformat d run now later)) =
              [OnComplete (fst (execute_download (Some add) isoformat d run now later))]
          \<and> errors (snd (execute_download (Some add) isoformat d run now later)) = [])
       \<and> (add (submitted_entry isoformat d run path now) = AddRaisesCancelled \<longrightarrow>
            status (fst (execute_download (Some add) isoformat d run now later)) = CANCELLED
          \<and> completed_at (fst (execute_download (Some add) isoformat d run now later)) = Some later
          \<and> completions (snd (execute_download (Some add) isoformat d run now later)) =
              [OnComplete (fst (execute_download (Some add) isoformat d run now later))]
          \<and> errors (snd (execute_download (Some add) isoformat d run now later)) = [])
       \<and> (add (submitted_entry isoformat d run path now) = AddRaises (Raised str_e user_message) \<longrightarrow>
            status (fst (execute_download (Some add) isoformat d run now later)) = ERROR
          \<and> error_message (fst (execute_download (Some add) isoformat d run now later)) =
              Some (case user_message of None \<Rightarrow> str_e | Some m \<Rightarrow> m)
          \<and> completions (snd (execute_download (Some add) isoformat d run now later)) = []
          \<and> errors (snd (execute_download (Some add) isoformat d run now later)) =
              [OnError (case user_message of None \<Rightarrow> str_e | Some m \<Rightarrow> m)])"
proof -
  obtain d1 cs where r: "run_reports (update_progress d 0 CONNECTING None) (reports run) = (d1, cs)"
    by (cases "run_reports (update_progress d 0 CONNECTING None) (reports run)")
  note rc = run_reports_calls[OF r]
  have e: "submitted_entry isoformat d run path now =
      from_download isoformat (mark_completed (d1\<lparr>output_path := path\<rparr>) now)"
    using r by (simp add: submitted_entry_def)
  show ?thesis
  proof (cases "add (from_download isoformat (mark_completed (d1\<lparr>output_path := path\<rparr>) now))")
    case AddReturns
    with assms r rc e show ?thesis
      by (simp add: execute_download_def Let_def mark_completed_def completions_def errors_def)
  next
    case AddRaisesCancelled
    with assms r rc e show ?thesis
      by (simp add: execute_download_def Let_def mark_completed_def mark_cancelled_def
          completions_def errors_def)
  next
    case (AddRaises x)
    obtain m um where x: "x = Raised m um" by (cases x)
    with AddRaises assms r rc e show ?thesis
      by (simp add: execute_download_def Let_def mark_completed_def mark_error_def
          completions_def errors_def)
  qed
qed

theorem history_failure_reaches_error_handler_witness:
  "outcome returning_run = Returns ''/out/clip.mp4''
   \<and> working_add (submitted_entry tally_isoformat example_download returning_run
        ''/out/clip.mp4'' 5) = AddReturns
   \<and> status (fst (execute_download (Some working_add) tally_isoformat example_download
        returning_run 5 6)) = COMPLETED
   \<and> errors (snd (execute_download (Some working_add) tally_isoformat example_download
        returning_run 5 6)) = []
   \<and> cancelling_add (submitted_entry tally_isoformat example_download returning_run
        ''/out/clip.mp4'' 5) = AddRaisesCancelled
   \<and> status (fst (execute_download (Some cancelling_add) tally_isoformat example_download
        returning_run 5 6)) = CANCELLED
   \<and> errors (snd (execute_download (Some cancelling_add) tally_isoformat example_download
        returning_run 5 6)) = []
   \<and> failing_add (submitted_entry tally_isoformat example_download returning_run
        ''/out/clip.mp4'' 5) = AddRaises (Raised ''disk full'' None)
   \<and> status (fst (execute_download (Some failing_add) tally_isoformat example_download
        returning_run 5 6)) = ERROR
   \<and> completions (snd (execute_download (Some failing_add) tally_isoformat example_download
        returning_run 5 6)) = []
   \<and> errors (snd (execute_download (Some failing_add) tally_isoformat example_download
        returning_run 5 6)) = [OnError ''disk full'']"
proof -
  have o: "outcome returning_run = Returns ''/out/clip.mp4''" by (simp add: returning_run_def)
  have w: "working_add (submitted_entry tally_isoformat example_download returning_run
        ''/out/clip.mp4'' 5) = AddReturns" by (simp add: working_add_def)
  have c: "cancelling_add (submitted_entry tally_isoformat example_download returning_run
        ''/out/clip.mp4'' 5) = AddRaisesCancelled" by (simp add: cancelling_add_def)
  have f: "failing_add (submitted_entry tally_isoformat example_download returning_run
        ''/out/clip.mp4'' 5) = AddRaises (Raised ''disk full'' None)"
    by (simp add: failing_add_def)
  show ?thesis
    using o w c f
      history_failure_reaches_error_handler
        [OF o, where add = working_add and isoformat = tally_isoformat and d = example_download
           and now = 5 and later = 6]
      history_failure_reaches_error_handler
        [OF o, where add = cancelling_add and isoformat = tally_isoformat
           and d = example_download and now = 5 and later = 6]
      history_failure_reaches_error_handler
        [OF o, where add = failing_add and isoformat = tally_isoformat and d = example_download
           and now = 5 and later = 6 and str_e = "''disk full''" and user_message = None]
    by simp
qed

text \<open>
  Claim C2 as stated fails: the engine returns a path, the history store's \<open>add\<close> raises,
  and the job ends in \<open>ERROR\<close> with one call of \<open>on_error\<close> and none of \<open>on_complete\<close>.
\<close>

theorem history_failure_ends_job_in_error:
  "status (fst (execute_download (Some failing_add) tally_isoformat example_download
      returning_run 5 6)) = ERROR
   \<and> completions (snd (execute_download (Some failing_add) tally_isoformat example_download
      returning_run 5 6)) = []
   \<and> errors (snd (execute_download (Some failing_add) tally_isoformat example_download
      returning_run 5 6)) = [OnError ''disk full'']"
  by (simp add: execute_download_def returning_run_def example_report_def failing_add_def
      handle_progress_def mark_completed_def mark_error_def completions_def errors_def Let_def)

section \<open>Properties of the progress hook\<close>

















end
